theory Spec2Isabelle
  imports Main "HOL-Library.Word" "HOL-Library.Product_Lexorder"
begin

section \<open>Wire messages (messages.go)\<close>

subsection \<open>Protocol versions\<close>

text \<open>
  \<^verbatim>\<open>type ProtocolVersion struct { Major int; Minor int }\<close>.
  The two fields are Go \<^verbatim>\<open>int\<close>s that the code only compares and never does arithmetic on, so
  they are modelled as \<^typ>\<open>int\<close>; the comparison of two 64-bit signed values is the comparison
  of the integers they denote. A \<^verbatim>\<open>*ProtocolVersion\<close> argument is taken to be non-nil.
\<close>

record ProtocolVersion =
  Major :: int
  Minor :: int

definition NewVersion :: "int \<Rightarrow> int \<Rightarrow> ProtocolVersion" where
  "NewVersion major minor = \<lparr>Major = major, Minor = minor\<rparr>"

definition Below :: "ProtocolVersion \<Rightarrow> int \<Rightarrow> int \<Rightarrow> bool" where
  "Below v major minor =
     (if Major v < major then True
      else Major v = major \<and> Minor v < minor)"

definition BelowVersion :: "ProtocolVersion \<Rightarrow> ProtocolVersion \<Rightarrow> bool" where
  "BelowVersion v other = Below v (Major other) (Minor other)"

definition Above :: "ProtocolVersion \<Rightarrow> int \<Rightarrow> int \<Rightarrow> bool" where
  "Above v major minor =
     (if Major v > major then True
      else Major v = major \<and> Minor v > minor)"

definition AboveVersion :: "ProtocolVersion \<Rightarrow> ProtocolVersion \<Rightarrow> bool" where
  "AboveVersion v other = Above v (Major other) (Minor other)"

text \<open>
  The pair \<open>(Major, Minor)\<close> of a version. Pairs of integers carry the lexicographic order
  (\<^theory_text>\<open>HOL-Library.Product_Lexorder\<close>), which is the order "x.y is older than x'.y'" of the
  specification; \<open>min\<close> on such pairs is the older of two versions.
\<close>

definition ver :: "ProtocolVersion \<Rightarrow> int \<times> int" where
  "ver v = (Major v, Minor v)"

definition version_of :: "int \<times> int \<Rightarrow> ProtocolVersion" where
  "version_of p = NewVersion (fst p) (snd p)"

subsection \<open>Server statuses\<close>

text \<open>
  \<^verbatim>\<open>type ServerStatus string\<close>: a status is a string, and the six statuses are string
  constants. The zero value of the type, the empty string, is what the \<^verbatim>\<open>SessionStatus\<close>
  field of an empty \<^verbatim>\<open>responseCache{}\<close> holds.
\<close>

type_synonym ServerStatus = string

definition ServerStatusInitialized :: ServerStatus where
  "ServerStatusInitialized = ''INITIALIZED''"

definition ServerStatusPairing :: ServerStatus where
  "ServerStatusPairing = ''PAIRING''"

definition ServerStatusConnected :: ServerStatus where
  "ServerStatusConnected = ''CONNECTED''"

definition ServerStatusCancelled :: ServerStatus where
  "ServerStatusCancelled = ''CANCELLED''"

definition ServerStatusDone :: ServerStatus where
  "ServerStatusDone = ''DONE''"

definition ServerStatusTimeout :: ServerStatus where
  "ServerStatusTimeout = ''TIMEOUT''"

lemmas ServerStatus_defs =
  ServerStatusInitialized_def ServerStatusPairing_def ServerStatusConnected_def
  ServerStatusCancelled_def ServerStatusDone_def ServerStatusTimeout_def

definition Finished :: "ServerStatus \<Rightarrow> bool" where
  "Finished status =
     (status = ServerStatusDone \<or> status = ServerStatusCancelled \<or> status = ServerStatusTimeout)"

record Qr =
  URL :: string
  Type_qr :: string

section \<open>Time\<close>

text \<open>
  A \<^verbatim>\<open>time.Time\<close> is an instant, modelled as the (unbounded) number of nanoseconds since
  some epoch. A \<^verbatim>\<open>time.Duration\<close> is an \<^verbatim>\<open>int64\<close> count of nanoseconds: a 64-bit word read
  as two's complement, so that the multiplication in
  \<^verbatim>\<open>time.Duration(ClientTimeout) * time.Second\<close> wraps around as it does in Go.
\<close>

type_synonym Time = int
type_synonym Duration = "64 word"

definition Second :: Duration where
  "Second = 1000000000"

definition Minute :: Duration where
  "Minute = 60 * Second"

definition Add :: "Time \<Rightarrow> Duration \<Rightarrow> Time" where
  "Add t d = t + sint d"

definition Before :: "Time \<Rightarrow> Time \<Rightarrow> bool" where
  "Before t u = (t < u)"

section \<open>Requests\<close>

text \<open>
  Modelled from the spec: the request types (\<^verbatim>\<open>RequestorRequest\<close>, \<^verbatim>\<open>SessionRequest\<close>, their
  \<^verbatim>\<open>Base()\<close> structs and \<^verbatim>\<open>SessionOptions\<close>) are declared outside the source at hand. The
  specification describes the request as "a tagged variant with a shared base carrying timeout,
  context, callback URL, pairing options, and chained-session descriptor". The model keeps the
  fields the session code reads: \<^verbatim>\<open>Revocation\<close> (only its length is used) and \<^verbatim>\<open>Host\<close> of
  the session request's base; \<^verbatim>\<open>ClientTimeout\<close> (a number of seconds, a 64-bit integer),
  \<^verbatim>\<open>CallbackURL\<close>, \<^verbatim>\<open>ResultJwtValidity\<close> and \<^verbatim>\<open>NextSession\<close> of the requestor request's
  base.
\<close>

record BaseRequest =
  Revocation :: "string list"
  Host :: string

record CredentialRequest =
  CredentialTypeID :: string
  RevocationKey :: string
  RevocationSupported :: bool

datatype SessionRequest =
    DisclosureRequest BaseRequest
  | SignatureRequest BaseRequest string
  | IssuanceRequest BaseRequest "CredentialRequest list"

fun Base :: "SessionRequest \<Rightarrow> BaseRequest" where
  "Base (DisclosureRequest b) = b"
| "Base (SignatureRequest b m) = b"
| "Base (IssuanceRequest b cs) = b"

record RequestorRequest =
  ResultJwtValidity :: int
  ClientTimeout :: "64 word"
  CallbackURL :: string
  NextSession :: "string option"
  SessionRequest :: SessionRequest

text \<open>
  Modelled from the spec: the pairing methods are the strings \<open>none\<close> and \<open>pin\<close>
  ("\<^verbatim>\<open>"pairingMethod": "none|pin"\<close>"); their constants are declared outside the source at hand.
\<close>

definition PairingMethodNone :: string where
  "PairingMethodNone = ''none''"


record SessionOptions =
  LDContext :: string
  PairingMethod :: string
  PairingCode :: string


section \<open>Sessions (sessions.go)\<close>

type_synonym byte = "8 word"

text \<open>
  A \<^verbatim>\<open>[]byte\<close> is a list of bytes; the code only looks at the length and the contents of its
  slices, so the nil slice and the empty slice are both \<open>[]\<close>.
\<close>

record responseCache =
  Endpoint :: string
  Message :: "byte list"
  Response :: "byte list"
  Status_cache :: int
  SessionStatus :: ServerStatus

text \<open>
  \<^verbatim>\<open>server.Error\<close> and \<^verbatim>\<open>server.RemoteError(err, message)\<close> belong to the server package; a
  remote error is kept as the pair it was built from.
\<close>

datatype server_Error =
    ErrorPairingRequired
  | ErrorUnexpectedRequest
  | ErrorIrmaUnauthorized
  | ErrorUnauthorized
  | ErrorProtocolVersionNotSupported
  | ErrorOther string

datatype RemoteError = RemoteError server_Error string

record SessionResult =
  Token :: string
  Status_result :: ServerStatus
  Type_result :: string
  Err :: "RemoteError option"
  LegacySession :: bool

record sessionData =
  Action :: string
  RequestorToken :: string
  ClientToken :: string
  Version :: "ProtocolVersion option"
  Rrequest :: RequestorRequest
  LegacyCompatible :: bool
  Status :: ServerStatus
  PrevStatus :: ServerStatus
  ResponseCache :: responseCache
  LastActive :: Time
  Result :: SessionResult
  KssProofs :: "string \<rightharpoonup> string"
  Next :: "Qr option"
  FrontendAuth :: string
  ImplicitDisclosure :: "string list list list"
  Options :: SessionOptions
  ClientAuth :: string

definition maxSessionLifetime :: Duration where
  "maxSessionLifetime = 5 * Minute"

definition minProtocolVersion :: ProtocolVersion where
  "minProtocolVersion = NewVersion 2 4"

definition maxProtocolVersion :: ProtocolVersion where
  "maxProtocolVersion = NewVersion 2 8"

section \<open>Session helpers (helpers.go)\<close>

text \<open>
  The errors the helpers return, one constructor for each \<^verbatim>\<open>errors.New\<close>/\<^verbatim>\<open>Errorf\<close> of the
  source. The negotiation error carries the four versions its message prints:
  \<open>min\<close>, \<open>max\<close>, \<open>minServer\<close>, \<open>maxServer\<close>.
\<close>

datatype error =
    NegotiationFailed ProtocolVersion ProtocolVersion ProtocolVersion ProtocolVersion
  | FrontendOptionsNotInitialized
  | PairingMethodUnknown
  | PairingNotEnabled
  | SessionLockNotSet
  | LockCannotBeChecked
  | NoSessionLockAvailable
  | RedisError string
  | MarshalError string

subsection \<open>Protocol version negotiation\<close>

text \<open>
  \<^verbatim>\<open>chooseProtocolVersion\<close> reads two package-level values that are declared outside the source
  at hand, \<^verbatim>\<open>AcceptInsecureProtocolVersions\<close> and \<^verbatim>\<open>minSecureProtocolVersion\<close>; they are
  parameters of the model.
\<close>

record negotiation_conf =
  AcceptInsecureProtocolVersions :: bool
  minSecureProtocolVersion :: ProtocolVersion

text \<open>
  The first half of \<^verbatim>\<open>chooseProtocolVersion\<close>: the local variable
  \<^verbatim>\<open>minSessionProtocolVersion\<close> after its successive assignments.
\<close>

definition minSessionProtocolVersion :: "negotiation_conf \<Rightarrow> sessionData \<Rightarrow> ProtocolVersion" where
  "minSessionProtocolVersion conf session =
     (if AcceptInsecureProtocolVersions conf then
        (let m0 = minProtocolVersion;
             m1 = (if \<not> LegacyCompatible session then \<lparr>Major = 2, Minor = 5\<rparr> else m0);
             m2 = (if length (Revocation (Base (SessionRequest (Rrequest session)))) > 0
                   then \<lparr>Major = 2, Minor = 6\<rparr> else m1);
             m3 = (if NextSession (Rrequest session) \<noteq> None
                   then \<lparr>Major = 2, Minor = 7\<rparr> else m2)
         in m3)
      else minSecureProtocolVersion conf)"

definition chooseProtocolVersion ::
  "negotiation_conf \<Rightarrow> sessionData \<Rightarrow> ProtocolVersion \<Rightarrow> ProtocolVersion \<Rightarrow> error + ProtocolVersion" where
  "chooseProtocolVersion conf session minClient maxClient =
     (let minSession = minSessionProtocolVersion conf session in
      if AboveVersion minClient maxProtocolVersion \<or> BelowVersion maxClient minSession
         \<or> BelowVersion maxClient minClient
      then Inl (NegotiationFailed minClient maxClient minSession maxProtocolVersion)
      else if AboveVersion maxClient maxProtocolVersion then Inr maxProtocolVersion
      else Inr maxClient)"

subsection \<open>Status changes\<close>

text \<open>
  \<^verbatim>\<open>markAlive\<close> stores \<^verbatim>\<open>time.Now()\<close>, which is the argument \<open>now\<close>. \<^verbatim>\<open>setStatus\<close> writes
  the status into the session and into its result; the logging and the result callback that
  follow deliver the result elsewhere and do not touch the session.
\<close>

definition markAlive :: "Time \<Rightarrow> sessionData \<Rightarrow> sessionData" where
  "markAlive now session = session\<lparr>LastActive := now\<rparr>"

definition setStatus :: "ServerStatus \<Rightarrow> sessionData \<Rightarrow> sessionData" where
  "setStatus status session =
     session\<lparr>Status := status, Result := (Result session)\<lparr>Status_result := status\<rparr>\<rparr>"


definition pairingCompleted :: "sessionData \<Rightarrow> error option \<times> sessionData" where
  "pairingCompleted session =
     (if Status session = ServerStatusPairing
      then (None, setStatus ServerStatusConnected session)
      else (Some PairingNotEnabled, session))"

definition fail :: "server_Error \<Rightarrow> string \<Rightarrow> sessionData \<Rightarrow> RemoteError \<times> sessionData" where
  "fail err message session =
     (let rerr = RemoteError err message;
          session' = session\<lparr>Result :=
            \<lparr>Token = RequestorToken session, Status_result = ServerStatusCancelled,
             Type_result = Action session, Err = Some rerr, LegacySession = False\<rparr>\<rparr>
      in (rerr, setStatus ServerStatusCancelled session'))"

subsection \<open>The response cache\<close>

definition retryTimeLimit :: Duration where
  "retryTimeLimit = 10 * Second"

definition empty_responseCache :: responseCache where
  "empty_responseCache =
     \<lparr>Endpoint = '''', Message = [], Response = [], Status_cache = 0, SessionStatus = ''''\<rparr>"

text \<open>
  \<^verbatim>\<open>checkCache\<close>. \<open>Sum256\<close> is \<^verbatim>\<open>sha256.Sum256\<close> of the standard library and \<open>now\<close> is
  \<^verbatim>\<open>time.Now()\<close>. The result is the returned pair and the session as the call leaves it.
\<close>

definition checkCache ::
  "(byte list \<Rightarrow> byte list) \<Rightarrow> Time \<Rightarrow> string \<Rightarrow> byte list \<Rightarrow> sessionData
     \<Rightarrow> (int \<times> byte list) \<times> sessionData" where
  "checkCache Sum256 now endpoint message session =
     (if Endpoint (ResponseCache session) \<noteq> endpoint
         \<or> length (Response (ResponseCache session)) = 0
         \<or> SessionStatus (ResponseCache session) \<noteq> Status session
         \<or> Before (LastActive session) (Add now (- retryTimeLimit))
         \<or> Sum256 (Message (ResponseCache session)) \<noteq> Sum256 message
      then ((0, []), session\<lparr>ResponseCache := empty_responseCache\<rparr>)
      else ((Status_cache (ResponseCache session), Response (ResponseCache session)), session))"

subsection \<open>The client session request\<close>






subsection \<open>Middleware\<close>

text \<open>
  An HTTP request as the middleware reads it: the URL path, the headers, and the body as
  \<^verbatim>\<open>io.ReadAll\<close> returns it (an error message, or the bytes). \<^verbatim>\<open>Header.Get\<close> returns the empty
  string for a header that is not set.
\<close>

record http_request =
  Path :: string
  Header :: "string \<rightharpoonup> string"
  Body :: "string + byte list"

definition AuthorizationHeader :: string where
  "AuthorizationHeader = ''Authorization''"

definition Header_Get :: "http_request \<Rightarrow> string \<Rightarrow> string" where
  "Header_Get r key = (case Header r key of None \<Rightarrow> '''' | Some v \<Rightarrow> v)"

definition bytes_of :: "string \<Rightarrow> byte list" where
  "bytes_of s = map (\<lambda>c. of_nat (of_char c)) s"

text \<open>
  What a middleware did with a request: it answered itself (an error written by
  \<^verbatim>\<open>server.WriteError\<close>, or a replayed response), or it called the next handler, whose result
  it passes on. A handler gets the request and the session and returns what it wrote (status
  code and body, as the wrapped response writer records them) and the session as it leaves it.
\<close>

datatype 'a served =
    Rejected server_Error string
  | Replayed int "byte list"
  | Passed 'a

type_synonym handler = "http_request \<Rightarrow> sessionData \<Rightarrow> (int \<times> byte list) \<times> sessionData"

definition pairingMiddleware ::
  "handler \<Rightarrow> http_request \<Rightarrow> sessionData \<Rightarrow> ((int \<times> byte list) \<times> sessionData) served" where
  "pairingMiddleware next r session =
     (if Status session = ServerStatusPairing
      then Rejected ErrorPairingRequired ''''
      else if Status session \<noteq> ServerStatusConnected
      then Rejected ErrorUnexpectedRequest ''Session not yet started or already finished''
      else if ClientAuth session \<noteq> Header_Get r AuthorizationHeader
      then Rejected ErrorIrmaUnauthorized ''''
      else Passed (next r session))"

text \<open>
  \<^verbatim>\<open>cacheMiddleware\<close> returns what was written to the client and the session afterwards. The
  handler sees the request with the body that was read.
\<close>

definition cacheMiddleware ::
  "(byte list \<Rightarrow> byte list) \<Rightarrow> Time \<Rightarrow> handler \<Rightarrow> http_request \<Rightarrow> sessionData
     \<Rightarrow> (int \<times> byte list) served \<times> sessionData" where
  "cacheMiddleware Sum256 now next r session =
     (let message = (case Body r of
                       Inl err \<Rightarrow> bytes_of (''<failed to read body: '' @ err @ ''>'')
                     | Inr bts \<Rightarrow> bts);
          r' = r\<lparr>Body := Inr message\<rparr>;
          ((status, output), session1) = checkCache Sum256 now (Path r) message session
      in if status > 0 \<and> length output > 0
         then (Replayed status output, session1)
         else (let ((code, written), session2) = next r' session1
               in (Passed (code, written),
                   session2\<lparr>ResponseCache :=
                     \<lparr>Endpoint = Path r, Message = message, Response = written,
                      Status_cache = code, SessionStatus = Status session2\<rparr>\<rparr>)))"

section \<open>Session stores (sessions.go)\<close>

text \<open>
  A \<^verbatim>\<open>session\<close> is the session data together with the fields a store needs: the flag
  \<^verbatim>\<open>locked\<close> and the Redis lock, a pointer that may be nil. The mutex, the event server, the
  configuration and the status channels hold no session state and are left out.
\<close>

record Lock =
  lock_key :: string
  lock_token :: string

record session =
  locked :: bool
  lock :: "Lock option"
  sessionData :: sessionData

subsection \<open>Memory store\<close>

text \<open>
  The memory store maps tokens to pointers to sessions, and both maps point to the same session
  object. Pointers are addresses into \<open>objects\<close>; a Go map is a partial function.
\<close>

record memorySessionStore =
  objects :: "nat \<Rightarrow> session"
  requestor :: "string \<rightharpoonup> nat"
  client :: "string \<rightharpoonup> nat"

text \<open>The local variable \<^verbatim>\<open>timeout\<close> of the loop body of \<^verbatim>\<open>deleteExpired\<close>.\<close>

definition sweepTimeout :: "sessionData \<Rightarrow> Duration" where
  "sweepTimeout session =
     (let timeout = maxSessionLifetime
      in if Status session = ServerStatusInitialized \<and> ClientTimeout (Rrequest session) \<noteq> 0
         then ClientTimeout (Rrequest session) * Second
         else timeout)"

text \<open>
  The second loop of \<^verbatim>\<open>deleteExpired\<close>, over the snapshot \<open>toCheck\<close>. Go visits the keys of a
  map in an order of its own choosing; the order is the list of tokens given. The state of the
  loop is the session objects and the slice \<^verbatim>\<open>expired\<close>.
\<close>

fun checkExpired ::
  "Time \<Rightarrow> (string \<rightharpoonup> nat) \<Rightarrow> string list \<Rightarrow> (nat \<Rightarrow> session) \<times> string list
     \<Rightarrow> (nat \<Rightarrow> session) \<times> string list" where
  "checkExpired now toCheck [] (objs, expired) = (objs, expired)"
| "checkExpired now toCheck (token # rest) (objs, expired) =
     (case toCheck token of
        None \<Rightarrow> checkExpired now toCheck rest (objs, expired)
      | Some p \<Rightarrow>
          (let session = sessionData (objs p);
               timeout = sweepTimeout session
           in if Before (Add (LastActive session) timeout) now
              then (if \<not> Finished (Status session)
                    then checkExpired now toCheck rest
                           (objs(p := (objs p)\<lparr>sessionData :=
                               setStatus ServerStatusTimeout (markAlive now session)\<rparr>),
                            expired)
                    else checkExpired now toCheck rest (objs, expired @ [token]))
              else checkExpired now toCheck rest (objs, expired)))"

text \<open>
  The third loop, over \<^verbatim>\<open>expired\<close>. Looking up a token that is no longer in the requestor
  index gives a nil pointer, and reading its fields panics: the result \<open>None\<close>.
\<close>

fun deleteTokens :: "string list \<Rightarrow> memorySessionStore \<Rightarrow> memorySessionStore option" where
  "deleteTokens [] s = Some s"
| "deleteTokens (token # rest) s =
     (case requestor s token of
        None \<Rightarrow> None
      | Some p \<Rightarrow>
          deleteTokens rest
            (s\<lparr>client := (client s)(ClientToken (sessionData (objects s p)) := None),
               requestor := (requestor s)(token := None)\<rparr>))"

definition deleteExpired :: "Time \<Rightarrow> string list \<Rightarrow> memorySessionStore \<Rightarrow> memorySessionStore option" where
  "deleteExpired now tokens s =
     (let toCheck = requestor s;
          (objs, expired) = checkExpired now toCheck tokens (objects s, [])
      in deleteTokens expired (s\<lparr>objects := objs\<rparr>))"

subsection \<open>Redis store\<close>

text \<open>
  The Redis server as the store sees it: the entries, each with the expiration it was set
  with, and the keys on which a command fails (a network error). \<^verbatim>\<open>json.Marshal\<close>,
  \<^verbatim>\<open>json.Unmarshal\<close> and the lock's \<^verbatim>\<open>TTL\<close> are parameters of the functions below.
\<close>

record redis =
  entries :: "string \<rightharpoonup> string \<times> Duration"
  failing :: "string \<Rightarrow> bool"

definition requestorTokenLookupPrefix :: string where
  "requestorTokenLookupPrefix = ''token:''"

definition clientTokenLookupPrefix :: string where
  "clientTokenLookupPrefix = ''session:''"

definition redis_Get :: "redis \<Rightarrow> string \<Rightarrow> error + string option" where
  "redis_Get db key =
     (if failing db key then Inl (RedisError key)
      else Inr (map_option fst (entries db key)))"

definition redis_Set :: "redis \<Rightarrow> string \<Rightarrow> string \<Rightarrow> Duration \<Rightarrow> error option \<times> redis" where
  "redis_Set db key val expiration =
     (if failing db key then (Some (RedisError key), db)
      else (None, db\<lparr>entries := (entries db)(key \<mapsto> (val, expiration))\<rparr>))"

definition redis_clientGet ::
  "(string \<Rightarrow> error + sessionData) \<Rightarrow> Time \<Rightarrow> redis \<Rightarrow> string \<Rightarrow> error + session option" where
  "redis_clientGet unmarshal now db t =
     (case redis_Get db (clientTokenLookupPrefix @ t) of
        Inl err \<Rightarrow> Inl err
      | Inr None \<Rightarrow> Inr None
      | Inr (Some val) \<Rightarrow>
          (case unmarshal val of
             Inl err \<Rightarrow> Inl err
           | Inr data \<Rightarrow>
               Inr (Some \<lparr>locked = False, lock = None,
                  sessionData =
                    (if Before (Add (LastActive data) maxSessionLifetime) now
                        \<and> \<not> Finished (Status data)
                     then setStatus ServerStatusTimeout (markAlive now data)
                     else data)\<rparr>)))"

definition redis_add ::
  "(sessionData \<Rightarrow> error + string) \<Rightarrow> redis \<Rightarrow> session \<Rightarrow> error option \<times> redis" where
  "redis_add marshal db session =
     (let timeout =
            (if Status (sessionData session) = ServerStatusInitialized
                \<and> ClientTimeout (Rrequest (sessionData session)) \<noteq> 0
             then ClientTimeout (Rrequest (sessionData session)) * Second
             else if Finished (Status (sessionData session)) then maxSessionLifetime
             else 2 * maxSessionLifetime)
      in case marshal (sessionData session) of
           Inl err \<Rightarrow> (Some err, db)
         | Inr sessionJSON \<Rightarrow>
             (case redis_Set db (requestorTokenLookupPrefix @ RequestorToken (sessionData session))
                     (ClientToken (sessionData session)) timeout of
                (Some err, db1) \<Rightarrow> (Some err, db1)
              | (None, db1) \<Rightarrow>
                  (case redis_Set db1 (clientTokenLookupPrefix @ ClientToken (sessionData session))
                          sessionJSON timeout of
                     (Some err, db2) \<Rightarrow> (Some err, db2)
                   | (None, db2) \<Rightarrow> (None, db2))))"

definition redis_update ::
  "(sessionData \<Rightarrow> error + string) \<Rightarrow> (Lock \<Rightarrow> error + Duration) \<Rightarrow> redis \<Rightarrow> session
     \<Rightarrow> error option \<times> redis" where
  "redis_update marshal TTL db session =
     (case lock session of
        None \<Rightarrow> (Some SessionLockNotSet, db)
      | Some l \<Rightarrow>
          (case TTL l of
             Inl err \<Rightarrow> (Some LockCannotBeChecked, db)
           | Inr ttl \<Rightarrow>
               if ttl = 0 then (Some NoSessionLockAvailable, db)
               else redis_add marshal db session))"

section \<open>The session state machine of the specification\<close>

text \<open>
  The edges of the state machine: from INITIALIZED to CONNECTED or PAIRING, from PAIRING to
  CONNECTED, and from each of the three non-terminal states to each of the terminal states
  DONE, CANCELLED and TIMEOUT.
\<close>

definition non_terminal :: "ServerStatus \<Rightarrow> bool" where
  "non_terminal a =
     (a = ServerStatusInitialized \<or> a = ServerStatusPairing \<or> a = ServerStatusConnected)"

definition terminal :: "ServerStatus \<Rightarrow> bool" where
  "terminal a =
     (a = ServerStatusDone \<or> a = ServerStatusCancelled \<or> a = ServerStatusTimeout)"

definition edge :: "ServerStatus \<Rightarrow> ServerStatus \<Rightarrow> bool" where
  "edge a b =
     ((a = ServerStatusInitialized \<and> b = ServerStatusConnected)
      \<or> (a = ServerStatusInitialized \<and> b = ServerStatusPairing)
      \<or> (a = ServerStatusPairing \<and> b = ServerStatusConnected)
      \<or> (non_terminal a \<and> terminal b))"

subsection \<open>What the sweep does to one session\<close>

text \<open>
  The description of the expiry sweep that the properties below compare \<open>deleteExpired\<close>
  with. A session has expired when its \<open>LastActive\<close> plus its timeout lies before \<open>now\<close>;
  \<open>swept\<close> is an expired session that is not finished after its transition to TIMEOUT, and
  any other session as it is.
\<close>

definition expired_at :: "Time \<Rightarrow> sessionData \<Rightarrow> bool" where
  "expired_at now session = (LastActive session + sint (sweepTimeout session) < now)"

definition swept :: "Time \<Rightarrow> session \<Rightarrow> session" where
  "swept now s =
     (if expired_at now (sessionData s) \<and> \<not> Finished (Status (sessionData s))
      then s\<lparr>sessionData := setStatus ServerStatusTimeout (markAlive now (sessionData s))\<rparr>
      else s)"

text \<open>
  The pointers that a list of tokens leads to, and the tokens of the dead: the sessions that
  have expired and are finished.
\<close>

definition pointers :: "(string \<rightharpoonup> nat) \<Rightarrow> string list \<Rightarrow> nat set" where
  "pointers toCheck tokens = {p. \<exists>t \<in> set tokens. toCheck t = Some p}"

definition dead_token :: "Time \<Rightarrow> (string \<rightharpoonup> nat) \<Rightarrow> (nat \<Rightarrow> session) \<Rightarrow> string \<Rightarrow> bool" where
  "dead_token now toCheck objs t =
     (case toCheck t of
        None \<Rightarrow> False
      | Some p \<Rightarrow> expired_at now (sessionData (objs p)) \<and> Finished (Status (sessionData (objs p))))"

definition known_status :: "ServerStatus \<Rightarrow> bool" where
  "known_status a = (non_terminal a \<or> terminal a)"

section \<open>Example sessions\<close>

text \<open>
  A disclosure session as \<^verbatim>\<open>newSession\<close> creates it, last active at time 0, and variations
  of it.
\<close>

definition example_request :: RequestorRequest where
  "example_request =
     \<lparr>ResultJwtValidity = 120, ClientTimeout = 0, CallbackURL = '''', NextSession = None,
      SessionRequest = DisclosureRequest \<lparr>Revocation = [], Host = ''''\<rparr>\<rparr>"

definition example_session :: sessionData where
  "example_session =
     \<lparr>Action = ''disclosing'', RequestorToken = ''R1'', ClientToken = ''C1'', Version = None,
      Rrequest = example_request, LegacyCompatible = True,
      Status = ServerStatusInitialized, PrevStatus = ServerStatusInitialized,
      ResponseCache = empty_responseCache, LastActive = 0,
      Result = \<lparr>Token = ''R1'', Status_result = ServerStatusInitialized,
                Type_result = ''disclosing'', Err = None, LegacySession = False\<rparr>,
      KssProofs = Map.empty, Next = None, FrontendAuth = ''F1'', ImplicitDisclosure = [],
      Options = \<lparr>LDContext = ''https://irma.app/ld/options/v1'',
                 PairingMethod = PairingMethodNone, PairingCode = ''''\<rparr>,
      ClientAuth = ''''\<rparr>"

text \<open>The session after the client connected and a handler answered a POST with an empty body.\<close>

definition example_connected :: sessionData where
  "example_connected =
     example_session\<lparr>Status := ServerStatusConnected, ClientAuth := ''A1'',
       ResponseCache := \<lparr>Endpoint = ''/commitments'', Message = [1, 2], Response = [],
                         Status_cache = 204, SessionStatus = ServerStatusConnected\<rparr>\<rparr>"

definition example_post :: http_request where
  "example_post =
     \<lparr>Path = ''/commitments'', Header = [AuthorizationHeader \<mapsto> ''A1''], Body = Inr [1, 2]\<rparr>"

text \<open>A handler that answers 200 with a one-byte body and marks the session done.\<close>

definition example_handler :: handler where
  "example_handler r session = ((200, [7]), setStatus ServerStatusDone session)"

text \<open>A Redis server with no entries on which no command fails, and a session encoder.\<close>

definition example_redis :: redis where
  "example_redis = \<lparr>entries = Map.empty, failing = (\<lambda>key. False)\<rparr>"

definition example_marshal :: "sessionData \<Rightarrow> error + string" where
  "example_marshal data = Inr (''{'' @ RequestorToken data @ ''}'')"

text \<open>
  A memory store with three sessions: a fresh one, a connected one, and one that is done.
\<close>

definition example_store :: memorySessionStore where
  "example_store =
     \<lparr>objects = (\<lambda>p. \<lparr>locked = False, lock = None,
          sessionData =
            (if p = 0 then example_session
             else if p = 1 then example_connected\<lparr>RequestorToken := ''R2'', ClientToken := ''C2''\<rparr>
             else example_session\<lparr>RequestorToken := ''R3'', ClientToken := ''C3'',
                    Status := ServerStatusDone\<rparr>)\<rparr>),
      requestor = [''R1'' \<mapsto> 0, ''R2'' \<mapsto> 1, ''R3'' \<mapsto> 2],
      client = [''C1'' \<mapsto> 0, ''C2'' \<mapsto> 1, ''C3'' \<mapsto> 2]\<rparr>"

text \<open>
  The fresh session with a client timeout of 20 minutes, held under a Redis lock, and a lock
  check that reports 400 ms of remaining lifetime.
\<close>

definition example_waiting :: session where
  "example_waiting =
     \<lparr>locked = True, lock = Some \<lparr>lock_key = ''lock:C1'', lock_token = ''t1''\<rparr>,
      sessionData = example_session\<lparr>Rrequest := example_request\<lparr>ClientTimeout := 1200\<rparr>\<rparr>\<rparr>"

definition example_TTL :: "Lock \<Rightarrow> error + Duration" where
  "example_TTL l = Inr 400000000"

section \<open>Properties\<close>

subsection \<open>Versions\<close>

lemma BelowVersion_ver: "BelowVersion v w \<longleftrightarrow> ver v < ver w"
  by (auto simp: BelowVersion_def Below_def ver_def less_prod_def)

lemma AboveVersion_ver: "AboveVersion v w \<longleftrightarrow> ver w < ver v"
  by (auto simp: AboveVersion_def Above_def ver_def less_prod_def)

lemma version_of_ver: "version_of (ver v) = v"
  by (simp add: version_of_def ver_def NewVersion_def)

lemma ver_maxProtocolVersion: "ver maxProtocolVersion = (2, 8)"
  by (simp add: ver_def maxProtocolVersion_def NewVersion_def)

text \<open>
  C1. For every client window \<open>[minClient, maxClient]\<close>, \<open>chooseProtocolVersion\<close> fails exactly
  when \<open>minClient\<close> is above the server maximum 2.8, or \<open>maxClient\<close> is below the effective
  session minimum, or \<open>maxClient\<close> is below \<open>minClient\<close>; in every other case it returns the
  older of \<open>maxClient\<close> and 2.8. Versions are compared as pairs, major part first.
\<close>

theorem chooseProtocolVersion_window:
  "chooseProtocolVersion conf session minClient maxClient =
     (if (2, 8) < ver minClient
         \<or> ver maxClient < ver (minSessionProtocolVersion conf session)
         \<or> ver maxClient < ver minClient
      then Inl (NegotiationFailed minClient maxClient
                  (minSessionProtocolVersion conf session) maxProtocolVersion)
      else Inr (version_of (min (ver maxClient) (2, 8))))"
proof -
  have older: "version_of (min (ver maxClient) (2, 8)) =
      (if AboveVersion maxClient maxProtocolVersion then maxProtocolVersion else maxClient)"
  proof (cases "AboveVersion maxClient maxProtocolVersion")
    case True
    then have "min (ver maxClient) (2, 8) = ver maxProtocolVersion"
      by (simp add: AboveVersion_ver ver_maxProtocolVersion min_absorb2 less_imp_le)
    with True show ?thesis by (simp add: version_of_ver)
  next
    case False
    then have "min (ver maxClient) (2, 8) = ver maxClient"
      by (simp add: AboveVersion_ver ver_maxProtocolVersion min_absorb1 not_less)
    with False show ?thesis by (simp add: version_of_ver)
  qed
  show ?thesis
    unfolding chooseProtocolVersion_def Let_def older
    by (simp add: AboveVersion_ver BelowVersion_ver ver_maxProtocolVersion)
qed

theorem chooseProtocolVersion_window_witness:
  "chooseProtocolVersion
     \<lparr>AcceptInsecureProtocolVersions = True, minSecureProtocolVersion = NewVersion 2 8\<rparr>
     (example_session\<lparr>Rrequest := example_request\<lparr>SessionRequest :=
        DisclosureRequest \<lparr>Revocation = [''irma-demo.MijnOverheid.root''], Host = ''''\<rparr>\<rparr>\<rparr>)
     (NewVersion 2 4) (NewVersion 2 7) = Inr (NewVersion 2 7)
   \<and> chooseProtocolVersion
     \<lparr>AcceptInsecureProtocolVersions = True, minSecureProtocolVersion = NewVersion 2 8\<rparr>
     (example_session\<lparr>Rrequest := example_request\<lparr>SessionRequest :=
        DisclosureRequest \<lparr>Revocation = [''irma-demo.MijnOverheid.root''], Host = ''''\<rparr>\<rparr>\<rparr>)
     (NewVersion 2 5) (NewVersion 2 5)
     = Inl (NegotiationFailed (NewVersion 2 5) (NewVersion 2 5) (NewVersion 2 6) (NewVersion 2 8))
   \<and> chooseProtocolVersion
     \<lparr>AcceptInsecureProtocolVersions = True, minSecureProtocolVersion = NewVersion 2 8\<rparr>
     example_session (NewVersion 2 4) (NewVersion 3 0) = Inr (NewVersion 2 8)"
proof -
  let ?conf = "\<lparr>AcceptInsecureProtocolVersions = True, minSecureProtocolVersion = NewVersion 2 8\<rparr>"
  let ?revocation = "example_session\<lparr>Rrequest := example_request\<lparr>SessionRequest :=
        DisclosureRequest \<lparr>Revocation = [''irma-demo.MijnOverheid.root''], Host = ''''\<rparr>\<rparr>\<rparr>"
  have minimum: "minSessionProtocolVersion ?conf ?revocation = NewVersion 2 6"
    by (simp add: minSessionProtocolVersion_def example_session_def example_request_def
          NewVersion_def Let_def)
  have plain: "minSessionProtocolVersion ?conf example_session = NewVersion 2 4"
    by (simp add: minSessionProtocolVersion_def example_session_def example_request_def
          NewVersion_def minProtocolVersion_def Let_def)
  show ?thesis
    using chooseProtocolVersion_window [of ?conf ?revocation "NewVersion 2 4" "NewVersion 2 7"]
      chooseProtocolVersion_window [of ?conf ?revocation "NewVersion 2 5" "NewVersion 2 5"]
      chooseProtocolVersion_window [of ?conf example_session "NewVersion 2 4" "NewVersion 3 0"]
    unfolding minimum plain
    by (simp add: ver_def version_of_def NewVersion_def maxProtocolVersion_def
          less_prod_def min_def less_eq_prod_def)
qed

subsection \<open>The effective minimum version\<close>

text \<open>
  C2 as stated fails: the feature-dependent minimum is computed only when
  \<open>AcceptInsecureProtocolVersions\<close> is set. With the switch off, a legacy-compatible session
  without revocation and without a chained session has the minimum
  \<open>minSecureProtocolVersion\<close> (here 2.8), not 2.4.
\<close>

theorem minSessionProtocolVersion_counterexample:
  "LegacyCompatible example_session
   \<and> Revocation (Base (SessionRequest (Rrequest example_session))) = []
   \<and> NextSession (Rrequest example_session) = None
   \<and> minSessionProtocolVersion
        \<lparr>AcceptInsecureProtocolVersions = False, minSecureProtocolVersion = NewVersion 2 8\<rparr>
        example_session \<noteq> NewVersion 2 4"
  by (simp add: minSessionProtocolVersion_def example_session_def example_request_def
        NewVersion_def)

text \<open>
  C2, amended. When \<open>AcceptInsecureProtocolVersions\<close> is set, the effective minimum is 2.7 for
  a session with a chained session, else 2.6 for one that requires non-revocation proofs, else
  2.5 for one that is not legacy-compatible, else 2.4. When the switch is off, the effective
  minimum is \<open>minSecureProtocolVersion\<close> for every session.
\<close>

theorem minSessionProtocolVersion_features:
  "minSessionProtocolVersion conf session =
     (if AcceptInsecureProtocolVersions conf then
        (if NextSession (Rrequest session) \<noteq> None then NewVersion 2 7
         else if Revocation (Base (SessionRequest (Rrequest session))) \<noteq> [] then NewVersion 2 6
         else if \<not> LegacyCompatible session then NewVersion 2 5
         else NewVersion 2 4)
      else minSecureProtocolVersion conf)"
  by (simp add: minSessionProtocolVersion_def Let_def NewVersion_def minProtocolVersion_def)

theorem minSessionProtocolVersion_features_witness:
  "minSessionProtocolVersion
     \<lparr>AcceptInsecureProtocolVersions = True, minSecureProtocolVersion = NewVersion 2 8\<rparr>
     (example_session\<lparr>Rrequest := example_request\<lparr>NextSession := Some ''issuing''\<rparr>\<rparr>)
   = NewVersion 2 7"
  using minSessionProtocolVersion_features
    [of "\<lparr>AcceptInsecureProtocolVersions = True, minSecureProtocolVersion = NewVersion 2 8\<rparr>"
        "example_session\<lparr>Rrequest := example_request\<lparr>NextSession := Some ''issuing''\<rparr>\<rparr>"]
  by (simp add: example_session_def example_request_def)

subsection \<open>The response cache\<close>

lemma sint_neg_retryTimeLimit: "sint (- retryTimeLimit) = - 10000000000"
  by (simp add: retryTimeLimit_def Second_def)

text \<open>Times are in nanoseconds: the cache is stale when the session was last active more than
  10 seconds before \<open>now\<close>.\<close>

lemma stale_iff:
  "Before (LastActive session) (Add now (- retryTimeLimit))
     \<longleftrightarrow> now - LastActive session > 10000000000"
  by (auto simp: Before_def Add_def sint_neg_retryTimeLimit)

text \<open>
  C3 as stated fails: the four conditions are not sufficient. A recorded response with an
  empty body (status 204) is never replayed, although endpoint, body, session status and age
  all match: \<open>checkCache\<close> returns \<open>(0, nil)\<close> and not the recorded pair.
\<close>

theorem checkCache_counterexample:
  "Endpoint (ResponseCache example_connected) = ''/commitments''
   \<and> Message (ResponseCache example_connected) = [1, 2]
   \<and> SessionStatus (ResponseCache example_connected) = Status example_connected
   \<and> 5000000000 - LastActive example_connected \<le> 10000000000
   \<and> fst (checkCache (\<lambda>m. m) 5000000000 ''/commitments'' [1, 2] example_connected)
       \<noteq> (Status_cache (ResponseCache example_connected),
            Response (ResponseCache example_connected))"
  by (simp add: checkCache_def example_connected_def example_session_def)

text \<open>
  C3, amended. \<open>checkCache\<close> returns the recorded (status, response) pair if and only if the
  endpoint equals the cached endpoint, the SHA-256 digests of the bodies are equal, the
  session's status equals the recorded session status, the session was last active at most 10
  seconds ago, and the recorded response is not empty; otherwise it returns \<open>(0, nil)\<close>.
  When a request was answered by the handler with a positive status and a non-empty body, the
  same request, arriving while the session was last active at most 10 seconds ago, is answered
  with the same status and body and the same session, whatever the handler is.
\<close>

theorem checkCache_replay:
  "fst (checkCache Sum256 now endpoint message session) =
     (if Endpoint (ResponseCache session) = endpoint
         \<and> Sum256 (Message (ResponseCache session)) = Sum256 message
         \<and> SessionStatus (ResponseCache session) = Status session
         \<and> now - LastActive session \<le> 10000000000
         \<and> Response (ResponseCache session) \<noteq> []
      then (Status_cache (ResponseCache session), Response (ResponseCache session))
      else (0, []))
   \<and> (cacheMiddleware Sum256 now next r session = (Passed (code, written), session1)
        \<and> 0 < code \<and> written \<noteq> [] \<and> now' - LastActive session1 \<le> 10000000000
      \<longrightarrow> cacheMiddleware Sum256 now' next' r session1 = (Replayed code written, session1))"
proof (intro conjI impI)
  show "fst (checkCache Sum256 now endpoint message session) =
     (if Endpoint (ResponseCache session) = endpoint
         \<and> Sum256 (Message (ResponseCache session)) = Sum256 message
         \<and> SessionStatus (ResponseCache session) = Status session
         \<and> now - LastActive session \<le> 10000000000
         \<and> Response (ResponseCache session) \<noteq> []
      then (Status_cache (ResponseCache session), Response (ResponseCache session))
      else (0, []))"
    by (auto simp: checkCache_def stale_iff)
next
  assume first: "cacheMiddleware Sum256 now next r session = (Passed (code, written), session1)
        \<and> 0 < code \<and> written \<noteq> [] \<and> now' - LastActive session1 \<le> 10000000000"
  define message where "message = (case Body r of
                       Inl err \<Rightarrow> bytes_of (''<failed to read body: '' @ err @ ''>'')
                     | Inr bts \<Rightarrow> bts)"
  from first have recorded: "ResponseCache session1 =
      \<lparr>Endpoint = Path r, Message = message, Response = written,
       Status_cache = code, SessionStatus = Status session1\<rparr>"
    by (auto simp: cacheMiddleware_def Let_def message_def split: prod.splits if_splits)
  have hit: "checkCache Sum256 now' (Path r) message session1 = ((code, written), session1)"
    using first by (simp add: checkCache_def recorded stale_iff)
  show "cacheMiddleware Sum256 now' next' r session1 = (Replayed code written, session1)"
    using first hit unfolding cacheMiddleware_def Let_def message_def [symmetric]
    by simp
qed

theorem checkCache_replay_witness:
  "fst (cacheMiddleware (\<lambda>m. m) 0 example_handler example_post example_connected)
     = Passed (200, [7])
   \<and> cacheMiddleware (\<lambda>m. m) 3000000000 (\<lambda>r s. ((500, []), s)) example_post
       (snd (cacheMiddleware (\<lambda>m. m) 0 example_handler example_post example_connected))
     = (Replayed 200 [7],
        snd (cacheMiddleware (\<lambda>m. m) 0 example_handler example_post example_connected))"
proof -
  define session1 where
    "session1 = snd (cacheMiddleware (\<lambda>m. m) 0 example_handler example_post example_connected)"
  have first: "cacheMiddleware (\<lambda>m. m) 0 example_handler example_post example_connected
      = (Passed (200, [7]), session1)"
    unfolding session1_def
    by (simp add: cacheMiddleware_def checkCache_def example_connected_def example_post_def
          example_handler_def Let_def)
  have active: "LastActive session1 = 0"
    unfolding session1_def
    by (simp add: cacheMiddleware_def checkCache_def example_connected_def example_post_def
          example_handler_def example_session_def setStatus_def Let_def)
  from checkCache_replay [THEN conjunct2, rule_format,
      of "\<lambda>m. m" 0 example_handler example_post example_connected 200 "[7]" session1 3000000000
         "\<lambda>r s. ((500, []), s)"]
  have "cacheMiddleware (\<lambda>m. m) 3000000000 (\<lambda>r s. ((500, []), s)) example_post session1
      = (Replayed 200 [7], session1)"
    using first active by simp
  moreover have "fst (cacheMiddleware (\<lambda>m. m) 0 example_handler example_post example_connected)
      = Passed (200, [7])"
    by (simp only: first fst_conv)
  ultimately show ?thesis
    unfolding session1_def by (rule conjI [rotated])
qed

text \<open>
  C10. When one of the validity conditions of \<open>checkCache\<close> fails (the endpoint differs, the
  cached response is empty, the session status differs from the recorded one, the session was
  last active more than 10 seconds ago, or the digests differ), the call returns \<open>(0, nil)\<close>
  and leaves the session with an empty \<open>ResponseCache\<close>; otherwise it returns the cached pair
  and the session as it was. In both cases no field other than \<open>ResponseCache\<close> changes.
\<close>

theorem checkCache_frame:
  "checkCache Sum256 now endpoint message session =
     (if Endpoint (ResponseCache session) \<noteq> endpoint
         \<or> Response (ResponseCache session) = []
         \<or> SessionStatus (ResponseCache session) \<noteq> Status session
         \<or> now - LastActive session > 10000000000
         \<or> Sum256 (Message (ResponseCache session)) \<noteq> Sum256 message
      then ((0, []), session\<lparr>ResponseCache := empty_responseCache\<rparr>)
      else ((Status_cache (ResponseCache session), Response (ResponseCache session)), session))
   \<and> (snd (checkCache Sum256 now endpoint message session))
        \<lparr>ResponseCache := ResponseCache session\<rparr> = session"
  by (simp add: checkCache_def stale_iff)

theorem checkCache_frame_witness:
  "checkCache (\<lambda>m. m) 5000000000 ''/commitments'' [1, 2] example_connected =
     ((0, []), example_connected\<lparr>ResponseCache := empty_responseCache\<rparr>)
   \<and> checkCache (\<lambda>m. m) 5000000000 ''/commitments'' [1, 2]
        (example_connected\<lparr>ResponseCache := (ResponseCache example_connected)\<lparr>Response := [7]\<rparr>\<rparr>)
      = ((204, [7]),
         example_connected\<lparr>ResponseCache := (ResponseCache example_connected)\<lparr>Response := [7]\<rparr>\<rparr>)"
  using checkCache_frame [of "\<lambda>m. m" 5000000000 "''/commitments''" "[1, 2]" example_connected]
    checkCache_frame [of "\<lambda>m. m" 5000000000 "''/commitments''" "[1, 2]"
      "example_connected\<lparr>ResponseCache := (ResponseCache example_connected)\<lparr>Response := [7]\<rparr>\<rparr>"]
  by (simp add: example_connected_def example_session_def)

subsection \<open>The pairing gate\<close>

text \<open>
  C9. Behind the pairing middleware the handler runs if and only if the session is CONNECTED
  and the Authorization header equals the session's \<open>ClientAuth\<close>. Otherwise the request is
  rejected and the answer does not depend on the handler: with \<open>pairingRequired\<close> when the
  status is PAIRING, with \<open>unexpectedRequest\<close> for every other status that is not CONNECTED,
  and with \<open>irmaUnauthorized\<close> when the session is CONNECTED and the header differs.
\<close>

theorem pairingMiddleware_gate:
  "((\<exists>out. pairingMiddleware next r session = Passed out)
      \<longleftrightarrow> Status session = ServerStatusConnected
          \<and> Header_Get r AuthorizationHeader = ClientAuth session)
   \<and> (Status session = ServerStatusConnected
        \<and> Header_Get r AuthorizationHeader = ClientAuth session
      \<longrightarrow> pairingMiddleware next r session = Passed (next r session))
   \<and> (Status session = ServerStatusPairing
      \<longrightarrow> pairingMiddleware next r session = Rejected ErrorPairingRequired '''')
   \<and> (Status session \<noteq> ServerStatusPairing \<and> Status session \<noteq> ServerStatusConnected
      \<longrightarrow> pairingMiddleware next r session =
            Rejected ErrorUnexpectedRequest ''Session not yet started or already finished'')
   \<and> (Status session = ServerStatusConnected
        \<and> Header_Get r AuthorizationHeader \<noteq> ClientAuth session
      \<longrightarrow> pairingMiddleware next r session = Rejected ErrorIrmaUnauthorized '''')
   \<and> (\<not> (Status session = ServerStatusConnected
           \<and> Header_Get r AuthorizationHeader = ClientAuth session)
      \<longrightarrow> pairingMiddleware next r session = pairingMiddleware next' r session)"
  by (auto simp: pairingMiddleware_def ServerStatus_defs simp del: split_paired_Ex)

theorem pairingMiddleware_gate_witness:
  "pairingMiddleware example_handler example_post example_connected
     = Passed (example_handler example_post example_connected)
   \<and> pairingMiddleware example_handler example_post
        (example_connected\<lparr>Status := ServerStatusPairing\<rparr>)
     = Rejected ErrorPairingRequired ''''
   \<and> pairingMiddleware example_handler example_post
        (example_connected\<lparr>Status := ServerStatusDone\<rparr>)
     = Rejected ErrorUnexpectedRequest ''Session not yet started or already finished''
   \<and> pairingMiddleware example_handler example_post
        (example_connected\<lparr>ClientAuth := ''A2''\<rparr>)
     = Rejected ErrorIrmaUnauthorized ''''"
  using pairingMiddleware_gate [of example_handler example_post example_connected]
    pairingMiddleware_gate [of example_handler example_post
      "example_connected\<lparr>Status := ServerStatusPairing\<rparr>"]
    pairingMiddleware_gate [of example_handler example_post
      "example_connected\<lparr>Status := ServerStatusDone\<rparr>"]
    pairingMiddleware_gate [of example_handler example_post
      "example_connected\<lparr>ClientAuth := ''A2''\<rparr>"]
  by (simp add: example_connected_def example_post_def Header_Get_def ServerStatus_defs)

subsection \<open>The client session request\<close>





subsection \<open>The Redis store\<close>

lemma lookup_keys_differ:
  "requestorTokenLookupPrefix @ a \<noteq> clientTokenLookupPrefix @ b"
  by (simp add: requestorTokenLookupPrefix_def clientTokenLookupPrefix_def)


lemma sint_twice_maxSessionLifetime: "sint (2 * maxSessionLifetime) = 600000000000"
  by (simp add: maxSessionLifetime_def Minute_def Second_def)

text \<open>The expiration that \<open>redis_add\<close> computes, as the amended C5 states it.\<close>

lemma redis_add_cases:
  "redis_add marshal db session =
     (let T = (if Finished (Status (sessionData session)) then maxSessionLifetime
               else if Status (sessionData session) = ServerStatusInitialized
                       \<and> ClientTimeout (Rrequest (sessionData session)) \<noteq> 0
               then ClientTimeout (Rrequest (sessionData session)) * Second
               else 2 * maxSessionLifetime);
          k1 = requestorTokenLookupPrefix @ RequestorToken (sessionData session);
          k2 = clientTokenLookupPrefix @ ClientToken (sessionData session)
      in case marshal (sessionData session) of
           Inl err \<Rightarrow> (Some err, db)
         | Inr json \<Rightarrow>
             if failing db k1 then (Some (RedisError k1), db)
             else if failing db k2
             then (Some (RedisError k2),
                   db\<lparr>entries := (entries db)(k1 \<mapsto> (ClientToken (sessionData session), T))\<rparr>)
             else (None,
                   db\<lparr>entries := (entries db)(k1 \<mapsto> (ClientToken (sessionData session), T),
                                                k2 \<mapsto> (json, T))\<rparr>))"
proof -
  have init: "\<not> Finished ServerStatusInitialized"
    by (simp add: Finished_def ServerStatus_defs)
  show ?thesis
  proof (cases "marshal (sessionData session)")
    case (Inl err)
    then show ?thesis by (simp add: redis_add_def Let_def)
  next
    case (Inr json)
    then show ?thesis
      using init by (auto simp: redis_add_def redis_Set_def Let_def)
  qed
qed

text \<open>
  C5 as stated fails: for an INITIALIZED session the expiration is not capped at twice the
  maximal session lifetime. With a client timeout of 1200 seconds both keys are set to expire
  after 1200 seconds, and not after min(1200 s, 600 s) = 600 s.
\<close>

theorem redis_add_counterexample:
  "Status (sessionData example_waiting) = ServerStatusInitialized
   \<and> ClientTimeout (Rrequest (sessionData example_waiting)) = 1200
   \<and> fst (redis_add example_marshal example_redis example_waiting) = None
   \<and> map_option (\<lambda>e. sint (snd e))
        (entries (snd (redis_add example_marshal example_redis example_waiting)) ''token:R1'')
       = Some 1200000000000
   \<and> map_option (\<lambda>e. sint (snd e))
        (entries (snd (redis_add example_marshal example_redis example_waiting)) ''session:C1'')
       = Some 1200000000000
   \<and> min (1200000000000 :: int) (sint (2 * maxSessionLifetime)) = 600000000000"
  by (simp add: redis_add_cases Let_def example_waiting_def example_session_def
        example_request_def example_marshal_def example_redis_def Finished_def
        ServerStatus_defs requestorTokenLookupPrefix_def clientTokenLookupPrefix_def
        Second_def sint_twice_maxSessionLifetime)

text \<open>
  C5, amended. When \<open>add\<close> of the Redis store succeeds, the token pointer and the session
  payload are both stored with the same expiration: \<open>maxSessionLifetime\<close> when the status is
  terminal, \<open>ClientTimeout\<close> seconds (the duration \<^verbatim>\<open>ClientTimeout * time.Second\<close>, without a
  cap) when the status is INITIALIZED and \<open>ClientTimeout\<close> is not zero, and twice
  \<open>maxSessionLifetime\<close> otherwise. Whatever the outcome, an entry that \<open>add\<close> changes carries
  this expiration.
\<close>

theorem redis_add_expiration:
  "(redis_add marshal db session = (None, db')
      \<longrightarrow> (\<exists>json. marshal (sessionData session) = Inr json
            \<and> entries db' (requestorTokenLookupPrefix @ RequestorToken (sessionData session))
                = Some (ClientToken (sessionData session),
                    if Finished (Status (sessionData session)) then maxSessionLifetime
                    else if Status (sessionData session) = ServerStatusInitialized
                            \<and> ClientTimeout (Rrequest (sessionData session)) \<noteq> 0
                    then ClientTimeout (Rrequest (sessionData session)) * Second
                    else 2 * maxSessionLifetime)
            \<and> entries db' (clientTokenLookupPrefix @ ClientToken (sessionData session))
                = Some (json,
                    if Finished (Status (sessionData session)) then maxSessionLifetime
                    else if Status (sessionData session) = ServerStatusInitialized
                            \<and> ClientTimeout (Rrequest (sessionData session)) \<noteq> 0
                    then ClientTimeout (Rrequest (sessionData session)) * Second
                    else 2 * maxSessionLifetime)))
   \<and> (entries (snd (redis_add marshal db session)) key \<noteq> entries db key
      \<longrightarrow> (\<exists>val. entries (snd (redis_add marshal db session)) key
                = Some (val,
                    if Finished (Status (sessionData session)) then maxSessionLifetime
                    else if Status (sessionData session) = ServerStatusInitialized
                            \<and> ClientTimeout (Rrequest (sessionData session)) \<noteq> 0
                    then ClientTimeout (Rrequest (sessionData session)) * Second
                    else 2 * maxSessionLifetime)))"
proof (intro conjI impI)
  assume "redis_add marshal db session = (None, db')"
  then show "\<exists>json. marshal (sessionData session) = Inr json
            \<and> entries db' (requestorTokenLookupPrefix @ RequestorToken (sessionData session))
                = Some (ClientToken (sessionData session),
                    if Finished (Status (sessionData session)) then maxSessionLifetime
                    else if Status (sessionData session) = ServerStatusInitialized
                            \<and> ClientTimeout (Rrequest (sessionData session)) \<noteq> 0
                    then ClientTimeout (Rrequest (sessionData session)) * Second
                    else 2 * maxSessionLifetime)
            \<and> entries db' (clientTokenLookupPrefix @ ClientToken (sessionData session))
                = Some (json,
                    if Finished (Status (sessionData session)) then maxSessionLifetime
                    else if Status (sessionData session) = ServerStatusInitialized
                            \<and> ClientTimeout (Rrequest (sessionData session)) \<noteq> 0
                    then ClientTimeout (Rrequest (sessionData session)) * Second
                    else 2 * maxSessionLifetime)"
    unfolding redis_add_cases Let_def
    by (cases "marshal (sessionData session)")
       (auto simp: lookup_keys_differ split: if_splits)
next
  assume "entries (snd (redis_add marshal db session)) key \<noteq> entries db key"
  then show "\<exists>val. entries (snd (redis_add marshal db session)) key
                = Some (val,
                    if Finished (Status (sessionData session)) then maxSessionLifetime
                    else if Status (sessionData session) = ServerStatusInitialized
                            \<and> ClientTimeout (Rrequest (sessionData session)) \<noteq> 0
                    then ClientTimeout (Rrequest (sessionData session)) * Second
                    else 2 * maxSessionLifetime)"
    unfolding redis_add_cases Let_def
    by (cases "marshal (sessionData session)")
       (auto simp: lookup_keys_differ split: if_splits)
qed

theorem redis_add_expiration_witness:
  "redis_add example_marshal example_redis
       (example_waiting\<lparr>sessionData := setStatus ServerStatusDone (sessionData example_waiting)\<rparr>)
     = (None, example_redis\<lparr>entries :=
          [''token:R1'' \<mapsto> (''C1'', maxSessionLifetime),
           ''session:C1'' \<mapsto> (''{R1}'', maxSessionLifetime)]\<rparr>)
   \<and> entries (example_redis\<lparr>entries :=
          [''token:R1'' \<mapsto> (''C1'', maxSessionLifetime),
           ''session:C1'' \<mapsto> (''{R1}'', maxSessionLifetime)]\<rparr>) ''token:R1''
       = Some (''C1'', maxSessionLifetime)"
proof -
  have stored: "redis_add example_marshal example_redis
       (example_waiting\<lparr>sessionData := setStatus ServerStatusDone (sessionData example_waiting)\<rparr>)
     = (None, example_redis\<lparr>entries :=
          [''token:R1'' \<mapsto> (''C1'', maxSessionLifetime),
           ''session:C1'' \<mapsto> (''{R1}'', maxSessionLifetime)]\<rparr>)"
    by (simp add: redis_add_cases Let_def example_waiting_def example_session_def
        example_request_def example_marshal_def example_redis_def Finished_def setStatus_def
        ServerStatus_defs requestorTokenLookupPrefix_def clientTokenLookupPrefix_def)
  from redis_add_expiration [THEN conjunct1, rule_format, OF stored]
  show ?thesis
    using stored
    by (simp add: example_waiting_def example_session_def setStatus_def Finished_def
        ServerStatus_defs requestorTokenLookupPrefix_def)
qed

text \<open>
  C6. \<open>update\<close> of the Redis store writes only when the session holds a lock whose remaining
  lifetime could be read and is not zero, and then it does what \<open>add\<close> does. When the lock is
  absent, cannot be checked, or has no lifetime left, \<open>update\<close> returns an error and the
  store is as it was.
\<close>

theorem redis_update_lock:
  "(lock session = None
      \<longrightarrow> redis_update marshal TTL db session = (Some SessionLockNotSet, db))
   \<and> (lock session = Some l \<and> TTL l = Inl err
      \<longrightarrow> redis_update marshal TTL db session = (Some LockCannotBeChecked, db))
   \<and> (lock session = Some l \<and> TTL l = Inr 0
      \<longrightarrow> redis_update marshal TTL db session = (Some NoSessionLockAvailable, db))
   \<and> (lock session = Some l \<and> TTL l = Inr ttl \<and> ttl \<noteq> 0
      \<longrightarrow> redis_update marshal TTL db session = redis_add marshal db session)
   \<and> (snd (redis_update marshal TTL db session) \<noteq> db
      \<longrightarrow> (\<exists>l' ttl'. lock session = Some l' \<and> TTL l' = Inr ttl' \<and> ttl' \<noteq> 0))"
  by (auto simp: redis_update_def split: option.splits sum.splits)

theorem redis_update_lock_witness:
  "redis_update example_marshal example_TTL example_redis example_waiting
     = redis_add example_marshal example_redis example_waiting
   \<and> snd (redis_add example_marshal example_redis example_waiting) \<noteq> example_redis
   \<and> redis_update example_marshal (\<lambda>l. Inr 0) example_redis example_waiting
     = (Some NoSessionLockAvailable, example_redis)
   \<and> redis_update example_marshal example_TTL example_redis (example_waiting\<lparr>lock := None\<rparr>)
     = (Some SessionLockNotSet, example_redis)"
proof -
  have written: "entries (snd (redis_add example_marshal example_redis example_waiting))
      ''token:R1'' \<noteq> entries example_redis ''token:R1''"
    by (simp add: redis_add_cases Let_def example_waiting_def example_session_def
        example_request_def example_marshal_def example_redis_def Finished_def
        ServerStatus_defs requestorTokenLookupPrefix_def clientTokenLookupPrefix_def)
  then have "snd (redis_add example_marshal example_redis example_waiting) \<noteq> example_redis"
    by auto
  then show ?thesis
    using redis_update_lock [of example_waiting example_marshal example_TTL example_redis
        "\<lparr>lock_key = ''lock:C1'', lock_token = ''t1''\<rparr>" undefined 400000000]
      redis_update_lock [of example_waiting example_marshal "\<lambda>l. Inr 0" example_redis
        "\<lparr>lock_key = ''lock:C1'', lock_token = ''t1''\<rparr>" undefined 0]
      redis_update_lock [of "example_waiting\<lparr>lock := None\<rparr>" example_marshal example_TTL
        example_redis]
    by (simp add: example_waiting_def example_TTL_def)
qed

subsection \<open>The expiry sweep of the memory store\<close>

lemma Finished_Timeout: "Finished ServerStatusTimeout"
  by (simp add: Finished_def)

lemma Timeout_not_Initialized: "ServerStatusTimeout \<noteq> ServerStatusInitialized"
  by (simp add: ServerStatus_defs)

lemma sint_maxSessionLifetime_pos: "0 < sint maxSessionLifetime"
  by (simp add: maxSessionLifetime_def Minute_def Second_def)


lemma swept_idem: "swept now (swept now s) = swept now s"
  by (simp add: swept_def setStatus_def markAlive_def Finished_Timeout)

text \<open>A session is dead when it has expired and is finished; the sweep deletes the dead.\<close>

lemma dead_swept:
  "expired_at now (sessionData (swept now s)) \<and> Finished (Status (sessionData (swept now s)))
     \<longleftrightarrow> expired_at now (sessionData s) \<and> Finished (Status (sessionData s))"
proof (cases "expired_at now (sessionData s) \<and> \<not> Finished (Status (sessionData s))")
  case True
  then have "\<not> expired_at now (sessionData (swept now s))"
    using sint_maxSessionLifetime_pos
    by (simp add: swept_def expired_at_def sweepTimeout_def setStatus_def markAlive_def
          Timeout_not_Initialized)
  with True show ?thesis by simp
next
  case False
  then have "swept now s = s" by (auto simp: swept_def)
  then show ?thesis by simp
qed

lemma checkExpired_step:
  "toCheck token = Some p \<Longrightarrow>
   checkExpired now toCheck (token # rest) (objs, acc) =
     checkExpired now toCheck rest
       (objs(p := swept now (objs p)),
        if expired_at now (sessionData (objs p)) \<and> Finished (Status (sessionData (objs p)))
        then acc @ [token] else acc)"
  by (simp add: Let_def swept_def expired_at_def Before_def Add_def)

lemma checkExpired_skip:
  "toCheck token = None \<Longrightarrow>
   checkExpired now toCheck (token # rest) (objs, acc) = checkExpired now toCheck rest (objs, acc)"
  by simp

lemma pointers_Cons_Some:
  "toCheck token = Some p \<Longrightarrow> pointers toCheck (token # rest) = insert p (pointers toCheck rest)"
  by (auto simp: pointers_def)

lemma pointers_Cons_None:
  "toCheck token = None \<Longrightarrow> pointers toCheck (token # rest) = pointers toCheck rest"
  by (auto simp: pointers_def)

lemma dead_token_upd:
  "dead_token now toCheck (objs(p := swept now (objs p))) t = dead_token now toCheck objs t"
proof (cases "toCheck t")
  case None
  then show ?thesis by (simp add: dead_token_def)
next
  case (Some q)
  show ?thesis
  proof (cases "q = p")
    case True
    with Some show ?thesis using dead_swept [of now "objs p"] by (simp add: dead_token_def)
  next
    case False
    with Some show ?thesis by (simp add: dead_token_def)
  qed
qed

lemma checkExpired_result:
  "checkExpired now toCheck tokens (objs, acc) =
     ((\<lambda>p. if p \<in> pointers toCheck tokens then swept now (objs p) else objs p),
      acc @ filter (dead_token now toCheck objs) tokens)"
proof (induction tokens arbitrary: objs acc)
  case Nil
  then show ?case by (simp add: pointers_def)
next
  case (Cons token rest)
  show ?case
  proof (cases "toCheck token")
    case None
    then have "\<not> dead_token now toCheck objs token" by (simp add: dead_token_def)
    with None show ?thesis
      by (simp only: checkExpired_skip Cons.IH pointers_Cons_None) simp
  next
    case (Some p)
    let ?objs = "objs(p := swept now (objs p))"
    have objs: "(\<lambda>q. if q \<in> pointers toCheck rest then swept now (?objs q) else ?objs q)
        = (\<lambda>q. if q \<in> insert p (pointers toCheck rest) then swept now (objs q) else objs q)"
      by (rule ext) (simp add: swept_idem)
    have "dead_token now toCheck ?objs = dead_token now toCheck objs"
      by (rule ext) (rule dead_token_upd)
    then have dead: "filter (dead_token now toCheck ?objs) rest
        = filter (dead_token now toCheck objs) rest"
      by simp
    have here: "dead_token now toCheck objs token
        \<longleftrightarrow> expired_at now (sessionData (objs p)) \<and> Finished (Status (sessionData (objs p)))"
      using Some by (simp add: dead_token_def)
    note step = checkExpired_step [of toCheck token p now rest objs acc, OF Some]
    note ptrs = pointers_Cons_Some [of toCheck token p rest, OF Some]
    show ?thesis
      unfolding step Cons.IH ptrs objs dead
      using here by simp
  qed
qed

lemma swept_ClientToken:
  "ClientToken (sessionData (swept now s)) = ClientToken (sessionData s)"
  by (simp add: swept_def setStatus_def markAlive_def)

lemma deleteTokens_objects:
  "deleteTokens ts s = Some s' \<Longrightarrow> objects s' = objects s"
proof (induction ts arbitrary: s)
  case Nil
  then show ?case by simp
next
  case (Cons t rest)
  then show ?case
    by (cases "requestor s t") auto
qed

text \<open>
  Deleting tokens that are distinct and all in the requestor index does not panic; it removes
  the tokens from the requestor index and the client tokens of their sessions from the client
  index.
\<close>

lemma deleteTokens_result:
  assumes "distinct ts" and "\<forall>t \<in> set ts. requestor s t \<noteq> None"
  shows "\<exists>s'. deleteTokens ts s = Some s' \<and> objects s' = objects s
     \<and> requestor s' = requestor s |` (- set ts)
     \<and> client s' = client s |`
          (- (\<lambda>t. ClientToken (sessionData (objects s (the (requestor s t))))) ` set ts)"
  using assms
proof (induction ts arbitrary: s)
  case Nil
  then show ?case by simp
next
  case (Cons t rest)
  from Cons.prems obtain p where p: "requestor s t = Some p" by auto
  define c where "c = ClientToken (sessionData (objects s p))"
  define s1 where "s1 = s\<lparr>client := (client s)(c := None), requestor := (requestor s)(t := None)\<rparr>"
  have step: "deleteTokens (t # rest) s = deleteTokens rest s1"
    using p by (simp add: s1_def c_def)
  have fresh: "t \<notin> set rest" and rest: "distinct rest"
    using Cons.prems by simp_all
  have same: "requestor s1 t' = requestor s t'" if "t' \<in> set rest" for t'
    using that fresh by (auto simp: s1_def)
  then have present: "\<forall>t' \<in> set rest. requestor s1 t' \<noteq> None"
    using Cons.prems by simp
  from Cons.IH [OF rest present] obtain s' where
    s': "deleteTokens rest s1 = Some s'" "objects s' = objects s1"
      "requestor s' = requestor s1 |` (- set rest)"
      "client s' = client s1 |`
          (- (\<lambda>t. ClientToken (sessionData (objects s1 (the (requestor s1 t))))) ` set rest)"
    by blast
  have tokens: "(\<lambda>t. ClientToken (sessionData (objects s1 (the (requestor s1 t))))) ` set rest
      = (\<lambda>t. ClientToken (sessionData (objects s (the (requestor s t))))) ` set rest"
    by (rule image_cong) (simp_all add: same, simp add: s1_def)
  have "objects s' = objects s"
    using s'(2) by (simp add: s1_def)
  moreover have "requestor s' = requestor s |` (- set (t # rest))"
    unfolding s'(3) by (rule ext) (simp add: s1_def restrict_map_def)
  moreover have "client s' = client s |`
      (- (\<lambda>t. ClientToken (sessionData (objects s (the (requestor s t))))) ` set (t # rest))"
    unfolding s'(4) tokens by (rule ext) (simp add: s1_def restrict_map_def p c_def)
  ultimately show ?case
    using step s'(1) by simp
qed

lemma dead_token_requestor:
  "dead_token now toCheck objs t \<Longrightarrow> toCheck t \<noteq> None"
  by (cases "toCheck t") (simp_all add: dead_token_def)

text \<open>The store after a sweep over tokens that are distinct.\<close>

lemma deleteExpired_result:
  assumes "distinct tokens"
  shows "\<exists>s'. deleteExpired now tokens s = Some s'
     \<and> objects s' = (\<lambda>p. if p \<in> pointers (requestor s) tokens
                           then swept now (objects s p) else objects s p)
     \<and> requestor s' = requestor s |`
          (- {t \<in> set tokens. dead_token now (requestor s) (objects s) t})
     \<and> client s' = client s |`
          (- (\<lambda>t. ClientToken (sessionData (objects s (the (requestor s t)))))
               ` {t \<in> set tokens. dead_token now (requestor s) (objects s) t})"
proof -
  define objs where "objs = (\<lambda>p. if p \<in> pointers (requestor s) tokens
                           then swept now (objects s p) else objects s p)"
  define dead where "dead = filter (dead_token now (requestor s) (objects s)) tokens"
  define s1 where "s1 = s\<lparr>objects := objs\<rparr>"
  have run: "deleteExpired now tokens s = deleteTokens dead s1"
    by (simp add: deleteExpired_def Let_def checkExpired_result objs_def dead_def s1_def)
  have "distinct dead"
    using assms by (simp add: dead_def)
  moreover have "\<forall>t \<in> set dead. requestor s1 t \<noteq> None"
    by (auto simp: dead_def s1_def dest: dead_token_requestor)
  ultimately obtain s' where
    s': "deleteTokens dead s1 = Some s'" "objects s' = objects s1"
      "requestor s' = requestor s1 |` (- set dead)"
      "client s' = client s1 |`
          (- (\<lambda>t. ClientToken (sessionData (objects s1 (the (requestor s1 t))))) ` set dead)"
    using deleteTokens_result [of dead s1] by blast
  have token: "ClientToken (sessionData (objects s1 q)) = ClientToken (sessionData (objects s q))"
    for q
    by (simp add: s1_def objs_def swept_ClientToken)
  have set_dead: "set dead = {t \<in> set tokens. dead_token now (requestor s) (objects s) t}"
    by (auto simp: dead_def)
  have "objects s' = objs"
    using s'(2) by (simp add: s1_def)
  moreover have "requestor s' = requestor s |` (- set dead)"
    using s'(3) by (simp add: s1_def)
  moreover have "client s' = client s |`
      (- (\<lambda>t. ClientToken (sessionData (objects s (the (requestor s t))))) ` set dead)"
    using s'(4) by (simp add: token) (simp add: s1_def)
  ultimately show ?thesis
    using run s'(1) unfolding objs_def set_dead by simp
qed



subsection \<open>Status changes and the state machine\<close>

lemma swept_Status:
  "Status (sessionData (swept now s)) = Status (sessionData s)
   \<or> (\<not> Finished (Status (sessionData s))
       \<and> Status (sessionData (swept now s)) = ServerStatusTimeout)"
  by (simp add: swept_def setStatus_def markAlive_def)

lemma deleteExpired_objects:
  assumes "deleteExpired now tokens s = Some s'"
  shows "objects s' p = (if p \<in> pointers (requestor s) tokens
                         then swept now (objects s p) else objects s p)"
proof -
  from assms have "deleteTokens (filter (dead_token now (requestor s) (objects s)) tokens)
      (s\<lparr>objects := (\<lambda>p. if p \<in> pointers (requestor s) tokens
                           then swept now (objects s p) else objects s p)\<rparr>) = Some s'"
    by (simp add: deleteExpired_def Let_def checkExpired_result)
  from deleteTokens_objects [OF this] show ?thesis by simp
qed

lemma edge_to_Timeout:
  "known_status a \<Longrightarrow> \<not> Finished a \<Longrightarrow> edge a ServerStatusTimeout"
  by (auto simp: known_status_def terminal_def Finished_def edge_def)

lemma guarded_timeout:
  assumes "b = a \<or> (\<not> Finished a \<and> b = ServerStatusTimeout)"
  shows "(Finished a \<longrightarrow> b = a) \<and> (known_status a \<longrightarrow> b = a \<or> edge a b)"
  using assms edge_to_Timeout by auto

text \<open>
  C4 as stated fails for \<open>fail\<close>: it sets the status to CANCELLED whatever the status was, so
  it moves a session that is DONE to CANCELLED, which is not an edge of the state machine.
\<close>

theorem fail_counterexample:
  "Status (example_session\<lparr>Status := ServerStatusDone\<rparr>) = ServerStatusDone
   \<and> Status (snd (fail ErrorUnexpectedRequest ''late''
        (example_session\<lparr>Status := ServerStatusDone\<rparr>))) = ServerStatusCancelled
   \<and> ServerStatusCancelled \<noteq> ServerStatusDone
   \<and> \<not> edge ServerStatusDone ServerStatusCancelled"
  by (simp add: fail_def setStatus_def Let_def edge_def non_terminal_def ServerStatus_defs)

text \<open>
  C4, amended. \<open>pairingCompleted\<close> changes the status only from PAIRING to CONNECTED and
  returns an error, leaving the session unchanged, in every other state. The expiry sweep and
  the Redis load path change the status of a session only when it is not finished, and then
  to TIMEOUT: they never move a session that is DONE, CANCELLED or TIMEOUT, and on a session
  in one of the six statuses the change follows an edge of the state machine. \<open>fail\<close> sets the
  status to CANCELLED from every status; this follows an edge when the session is in a
  non-terminal state.
\<close>

theorem status_changes:
  "(Status session = ServerStatusPairing
      \<longrightarrow> pairingCompleted session = (None, setStatus ServerStatusConnected session)
          \<and> Status (snd (pairingCompleted session)) = ServerStatusConnected
          \<and> edge (Status session) (Status (snd (pairingCompleted session))))
   \<and> (Status session \<noteq> ServerStatusPairing
      \<longrightarrow> pairingCompleted session = (Some PairingNotEnabled, session))
   \<and> (deleteExpired now tokens store = Some store'
      \<longrightarrow> (Status (sessionData (objects store' p)) = Status (sessionData (objects store p))
             \<or> (\<not> Finished (Status (sessionData (objects store p)))
                 \<and> Status (sessionData (objects store' p)) = ServerStatusTimeout))
          \<and> (Finished (Status (sessionData (objects store p)))
             \<longrightarrow> Status (sessionData (objects store' p))
                 = Status (sessionData (objects store p)))
          \<and> (known_status (Status (sessionData (objects store p)))
             \<longrightarrow> Status (sessionData (objects store' p))
                   = Status (sessionData (objects store p))
                 \<or> edge (Status (sessionData (objects store p)))
                      (Status (sessionData (objects store' p)))))
   \<and> (redis_clientGet unmarshal now db t = Inr (Some loaded)
      \<longrightarrow> (\<exists>val e data. entries db (clientTokenLookupPrefix @ t) = Some (val, e)
             \<and> unmarshal val = Inr data
             \<and> (Status (sessionData loaded) = Status data
                \<or> (\<not> Finished (Status data)
                    \<and> Status (sessionData loaded) = ServerStatusTimeout))
             \<and> (Finished (Status data) \<longrightarrow> Status (sessionData loaded) = Status data)
             \<and> (known_status (Status data)
                \<longrightarrow> Status (sessionData loaded) = Status data
                    \<or> edge (Status data) (Status (sessionData loaded)))))
   \<and> Status (snd (fail err message session)) = ServerStatusCancelled
   \<and> (non_terminal (Status session)
      \<longrightarrow> edge (Status session) (Status (snd (fail err message session))))"
proof -
  have pairing: "Status session = ServerStatusPairing
      \<longrightarrow> pairingCompleted session = (None, setStatus ServerStatusConnected session)
          \<and> Status (snd (pairingCompleted session)) = ServerStatusConnected
          \<and> edge (Status session) (Status (snd (pairingCompleted session)))"
    by (simp add: pairingCompleted_def setStatus_def edge_def)
  have not_pairing: "Status session \<noteq> ServerStatusPairing
      \<longrightarrow> pairingCompleted session = (Some PairingNotEnabled, session)"
    by (simp add: pairingCompleted_def)
  have sweep: "deleteExpired now tokens store = Some store'
      \<longrightarrow> (Status (sessionData (objects store' p)) = Status (sessionData (objects store p))
             \<or> (\<not> Finished (Status (sessionData (objects store p)))
                 \<and> Status (sessionData (objects store' p)) = ServerStatusTimeout))
          \<and> (Finished (Status (sessionData (objects store p)))
             \<longrightarrow> Status (sessionData (objects store' p))
                 = Status (sessionData (objects store p)))
          \<and> (known_status (Status (sessionData (objects store p)))
             \<longrightarrow> Status (sessionData (objects store' p))
                   = Status (sessionData (objects store p))
                 \<or> edge (Status (sessionData (objects store p)))
                      (Status (sessionData (objects store' p))))"
  proof
    assume run: "deleteExpired now tokens store = Some store'"
    have "Status (sessionData (objects store' p)) = Status (sessionData (objects store p))
       \<or> (\<not> Finished (Status (sessionData (objects store p)))
           \<and> Status (sessionData (objects store' p)) = ServerStatusTimeout)"
      using swept_Status [of now "objects store p"]
      by (simp add: deleteExpired_objects [OF run])
    then show "(Status (sessionData (objects store' p)) = Status (sessionData (objects store p))
             \<or> (\<not> Finished (Status (sessionData (objects store p)))
                 \<and> Status (sessionData (objects store' p)) = ServerStatusTimeout))
          \<and> (Finished (Status (sessionData (objects store p)))
             \<longrightarrow> Status (sessionData (objects store' p))
                 = Status (sessionData (objects store p)))
          \<and> (known_status (Status (sessionData (objects store p)))
             \<longrightarrow> Status (sessionData (objects store' p))
                   = Status (sessionData (objects store p))
                 \<or> edge (Status (sessionData (objects store p)))
                      (Status (sessionData (objects store' p))))"
      using guarded_timeout by blast
  qed
  have load: "redis_clientGet unmarshal now db t = Inr (Some loaded)
      \<longrightarrow> (\<exists>val e data. entries db (clientTokenLookupPrefix @ t) = Some (val, e)
             \<and> unmarshal val = Inr data
             \<and> (Status (sessionData loaded) = Status data
                \<or> (\<not> Finished (Status data)
                    \<and> Status (sessionData loaded) = ServerStatusTimeout))
             \<and> (Finished (Status data) \<longrightarrow> Status (sessionData loaded) = Status data)
             \<and> (known_status (Status data)
                \<longrightarrow> Status (sessionData loaded) = Status data
                    \<or> edge (Status data) (Status (sessionData loaded))))"
  proof
    assume load: "redis_clientGet unmarshal now db t = Inr (Some loaded)"
    then obtain val e where entry: "entries db (clientTokenLookupPrefix @ t) = Some (val, e)"
      by (auto simp: redis_clientGet_def redis_Get_def split: if_splits option.splits)
    with load obtain data where data: "unmarshal val = Inr data"
      and loaded: "sessionData loaded =
         (if Before (Add (LastActive data) maxSessionLifetime) now \<and> \<not> Finished (Status data)
          then setStatus ServerStatusTimeout (markAlive now data) else data)"
      by (cases "unmarshal val")
         (auto simp: redis_clientGet_def redis_Get_def split: if_splits)
    have change: "Status (sessionData loaded) = Status data
       \<or> (\<not> Finished (Status data) \<and> Status (sessionData loaded) = ServerStatusTimeout)"
      by (simp add: loaded setStatus_def markAlive_def)
    from change guarded_timeout [OF change] entry data
    show "\<exists>val e data. entries db (clientTokenLookupPrefix @ t) = Some (val, e)
             \<and> unmarshal val = Inr data
             \<and> (Status (sessionData loaded) = Status data
                \<or> (\<not> Finished (Status data)
                    \<and> Status (sessionData loaded) = ServerStatusTimeout))
             \<and> (Finished (Status data) \<longrightarrow> Status (sessionData loaded) = Status data)
             \<and> (known_status (Status data)
                \<longrightarrow> Status (sessionData loaded) = Status data
                    \<or> edge (Status data) (Status (sessionData loaded)))"
      by blast
  qed
  have cancelled: "Status (snd (fail err message session)) = ServerStatusCancelled"
    by (simp add: fail_def setStatus_def Let_def)
  have cancel_edge: "non_terminal (Status session)
      \<longrightarrow> edge (Status session) (Status (snd (fail err message session)))"
    unfolding cancelled by (simp add: edge_def terminal_def)
  show ?thesis
    by (intro conjI pairing not_pairing sweep load cancelled cancel_edge)
qed

theorem status_changes_witness:
  "pairingCompleted (example_connected\<lparr>Status := ServerStatusPairing\<rparr>)
     = (None, setStatus ServerStatusConnected (example_connected\<lparr>Status := ServerStatusPairing\<rparr>))
   \<and> pairingCompleted example_connected = (Some PairingNotEnabled, example_connected)
   \<and> (\<exists>store'. deleteExpired 400000000000 [''R1'', ''R2'', ''R3''] example_store = Some store'
         \<and> Status (sessionData (objects store' 2)) = ServerStatusDone
         \<and> (Status (sessionData (objects store' 0)) = ServerStatusInitialized
             \<or> edge ServerStatusInitialized (Status (sessionData (objects store' 0)))))
   \<and> (\<exists>loaded. redis_clientGet (\<lambda>val. Inr example_connected) 400000000000
          (example_redis\<lparr>entries := [''session:C1'' \<mapsto> (''{R1}'', maxSessionLifetime)]\<rparr>) ''C1''
          = Inr (Some loaded)
         \<and> (Status (sessionData loaded) = ServerStatusConnected
             \<or> edge ServerStatusConnected (Status (sessionData loaded))))
   \<and> edge ServerStatusConnected
        (Status (snd (fail ErrorUnexpectedRequest ''late'' example_connected)))"
proof -
  let ?pairing = "example_connected\<lparr>Status := ServerStatusPairing\<rparr>"
  let ?db = "example_redis\<lparr>entries := [''session:C1'' \<mapsto> (''{R1}'', maxSessionLifetime)]\<rparr>"
  have "Status ?pairing = ServerStatusPairing"
    by simp
  from status_changes [where session = ?pairing, THEN conjunct1, rule_format, OF this]
  have completed: "pairingCompleted ?pairing = (None, setStatus ServerStatusConnected ?pairing)"
    by simp
  have connected: "Status example_connected = ServerStatusConnected"
    by (simp add: example_connected_def)
  then have "Status example_connected \<noteq> ServerStatusPairing"
    by (simp add: ServerStatus_defs)
  from status_changes [where session = example_connected, THEN conjunct2, THEN conjunct1,
      rule_format, OF this]
  have refused: "pairingCompleted example_connected = (Some PairingNotEnabled, example_connected)" .
  obtain store' where
    run: "deleteExpired 400000000000 [''R1'', ''R2'', ''R3''] example_store = Some store'"
    using deleteExpired_result [of "[''R1'', ''R2'', ''R3'']" 400000000000 example_store]
    by auto
  note sweep = status_changes [where store = example_store and store' = store'
      and now = 400000000000 and tokens = "[''R1'', ''R2'', ''R3'']",
      THEN conjunct2, THEN conjunct2, THEN conjunct1, rule_format, OF run]
  have "Finished (Status (sessionData (objects example_store 2)))"
    by (simp add: example_store_def example_session_def Finished_def)
  with sweep [where p = 2, THEN conjunct2, THEN conjunct1]
  have kept: "Status (sessionData (objects store' 2)) = ServerStatusDone"
    by (simp add: example_store_def example_session_def)
  have "known_status (Status (sessionData (objects example_store 0)))"
    by (simp add: example_store_def example_session_def known_status_def non_terminal_def)
  with sweep [where p = 0, THEN conjunct2, THEN conjunct2]
  have timed_out: "Status (sessionData (objects store' 0)) = ServerStatusInitialized
      \<or> edge ServerStatusInitialized (Status (sessionData (objects store' 0)))"
    by (simp add: example_store_def example_session_def)
  have known: "known_status (Status example_connected)"
    by (simp add: connected known_status_def non_terminal_def)
  obtain loaded where
    load: "redis_clientGet (\<lambda>val. Inr example_connected) 400000000000 ?db ''C1''
        = Inr (Some loaded)"
    by (simp add: redis_clientGet_def redis_Get_def example_redis_def
          clientTokenLookupPrefix_def)
  from status_changes [where unmarshal = "\<lambda>val. Inr example_connected" and db = ?db
      and now = 400000000000 and t = "''C1''" and loaded = loaded,
      THEN conjunct2, THEN conjunct2, THEN conjunct2, THEN conjunct1, rule_format, OF load]
    known connected
  have reloaded: "Status (sessionData loaded) = ServerStatusConnected
      \<or> edge ServerStatusConnected (Status (sessionData loaded))"
    by auto
  have "non_terminal (Status example_connected)"
    by (simp add: connected non_terminal_def)
  from status_changes [where session = example_connected and err = ErrorUnexpectedRequest
      and message = "''late''",
      THEN conjunct2, THEN conjunct2, THEN conjunct2, THEN conjunct2, THEN conjunct2,
      rule_format, OF this]
  have cancelled: "edge ServerStatusConnected
      (Status (snd (fail ErrorUnexpectedRequest ''late'' example_connected)))"
    by (simp add: connected)
  from completed refused run kept timed_out load reloaded cancelled show ?thesis
    by blast
qed

end
